theory Spec2Isabelle
  imports Main "HOL-Library.Word"
begin

section \<open>Strings and the standard-library helpers the monitor calls\<close>

text \<open>
  A Go \<open>string\<close> is a sequence of bytes, here a \<open>string\<close> (a list of 8-bit \<open>char\<close>s);
  \<open>len\<close> is \<open>length\<close>.

  \<open>strings.ToLower\<close> is modelled on bytes: the letters \<open>A\<close> .. \<open>Z\<close> are moved to
  \<open>a\<close> .. \<open>z\<close> (\<open>c += 'a' - 'A'\<close>), every other byte is kept. That is what Go computes for
  every string made of ASCII bytes; for bytes from \<open>0x80\<close> on Go consults the Unicode
  tables, which are not modelled.
\<close>

definition isUpperByte :: "char \<Rightarrow> bool" where
  "isUpperByte c = (let n = (of_char c :: nat) in 65 \<le> n \<and> n \<le> 90)"

definition toLowerByte :: "char \<Rightarrow> char" where
  "toLowerByte c = (if isUpperByte c then char_of ((of_char c :: nat) + 32) else c)"

definition ToLower :: "string \<Rightarrow> string" where
  "ToLower s = map toLowerByte s"

text \<open>\<open>strings.Join(elems, sep)\<close>.\<close>

fun Join :: "string list \<Rightarrow> string \<Rightarrow> string" where
  "Join [] sep = []"
| "Join [x] sep = x"
| "Join (x # y # ys) sep = x @ sep @ Join (y # ys) sep"

text \<open>Decimal and hexadecimal numerals without leading zeros, as \<open>%d\<close> and \<open>%x\<close> print them.\<close>

fun decimal :: "nat \<Rightarrow> string" where
  "decimal n = (if n < 10 then [char_of (48 + n)]
                else decimal (n div 10) @ [char_of (48 + n mod 10)])"

declare decimal.simps [simp del]

definition hexDigit :: "nat \<Rightarrow> char" where
  "hexDigit d = (if d < 10 then char_of (48 + d) else char_of (87 + d))"

fun hexadecimal :: "nat \<Rightarrow> string" where
  "hexadecimal n = (if n < 16 then [hexDigit n]
                    else hexadecimal (n div 16) @ [hexDigit (n mod 16)])"

declare hexadecimal.simps [simp del]

subsection \<open>\<open>net.IP\<close> and its \<open>String\<close> method\<close>

text \<open>
  \<open>net.IP\<close> is a byte slice. \<open>IP.String\<close> prints a 4-byte address, and a 16-byte address
  with the IPv4-in-IPv6 prefix, in dotted decimal; any other 16-byte address as IPv6 text
  with the first longest run of two or more zero groups replaced by \<open>::\<close>; the empty
  slice as \<open><nil>\<close>; a slice of any other length as \<open>?\<close> followed by its hexadecimal
  bytes.
\<close>

type_synonym IP = "8 word list"

definition To4 :: "IP \<Rightarrow> IP" where
  "To4 ip = (if length ip = 4 then ip
             else if length ip = 16 \<and> take 10 ip = replicate 10 0
                     \<and> ip ! 10 = 0xff \<and> ip ! 11 = 0xff then drop 12 ip
             else [])"

definition hexString :: "IP \<Rightarrow> string" where
  "hexString ip = concat (map (\<lambda>b. [hexDigit (unat b div 16), hexDigit (unat b mod 16)]) ip)"

fun groups16 :: "IP \<Rightarrow> nat list" where
  "groups16 (hi # lo # rest) = (unat hi * 256 + unat lo) # groups16 rest"
| "groups16 _ = []"

definition zeroRun :: "nat list \<Rightarrow> nat \<times> nat" where
  "zeroRun gs = fold (\<lambda>i (zeroStart, zeroEnd).
                   let j = i + length (takeWhile (\<lambda>g. g = 0) (drop i gs)) in
                   if 2 \<le> j - i \<and> zeroEnd - zeroStart < j - i then (i, j)
                   else (zeroStart, zeroEnd))
                [0 ..< 8] (255, 255)"

definition string6 :: "IP \<Rightarrow> string" where
  "string6 ip = (let gs = groups16 ip; (zeroStart, zeroEnd) = zeroRun gs in
     if zeroStart < 8
     then Join (map hexadecimal (take zeroStart gs)) '':'' @ ''::''
          @ Join (map hexadecimal (drop zeroEnd gs)) '':''
     else Join (map hexadecimal gs) '':'')"

definition IP_String :: "IP \<Rightarrow> string" where
  "IP_String ip =
     (if length ip = 0 then ''<nil>''
      else if length ip \<noteq> 4 \<and> length ip \<noteq> 16 then ''?'' @ hexString ip
      else if length (To4 ip) = 4
           then Join (map (\<lambda>b. decimal (unat b)) (To4 ip)) ''.''
      else string6 ip)"

section \<open>The response validator (\<open>checkDNSResult\<close>)\<close>

text \<open>
  A \<open>dns.Msg\<close> carries the answer section as a slice of resource records. The validator
  looks at the dynamic type of each record: \<open>*dns.A\<close>, \<open>*dns.AAAA\<close>, \<open>*dns.CNAME\<close> and
  \<open>*dns.TXT\<close> are the four cases of its type switch, every other record type is
  \<open>OtherRR\<close>.
\<close>

record RR_Header =
  Hdr_Name :: string
  Hdr_Rrtype :: "16 word"
  Hdr_Class :: "16 word"
  Hdr_Ttl :: "32 word"

datatype RR =
    A RR_Header IP
  | AAAA RR_Header IP
  | CNAME RR_Header string
  | TXT RR_Header "string list"
  | OtherRR RR_Header

record Msg =
  Msg_Answer :: "RR list"

datatype check_error =
    ValueMismatch string string
  | TypeMismatch string string

text \<open>The message of each error, as \<open>fmt.Errorf\<close> builds it.\<close>

fun check_error_msg :: "check_error \<Rightarrow> string" where
  "check_error_msg (ValueMismatch actual expected) =
     ''record value of '' @ [CHR 0x27] @ actual @ [CHR 0x27]
       @ '' does not match expected value '' @ [CHR 0x27] @ expected @ [CHR 0x27]"
| "check_error_msg (TypeMismatch actual expected) =
     ''record type of '' @ [CHR 0x27] @ actual @ [CHR 0x27]
       @ '' does not match expected type '' @ [CHR 0x27] @ expected @ [CHR 0x27]"

text \<open>
  The type switch at the head of the loop body: the pair \<open>(value, record_type)\<close> of a
  supported record, \<open>None\<close> for the \<open>default: continue\<close> branch.
\<close>

fun rrValueType :: "RR \<Rightarrow> (string \<times> string) option" where
  "rrValueType (A h ip) = Some (IP_String ip, ''a'')"
| "rrValueType (AAAA h ip) = Some (IP_String ip, ''aaaa'')"
| "rrValueType (CNAME h target) = Some (target, ''cname'')"
| "rrValueType (TXT h txt) = Some (Join txt '' '', ''txt'')"
| "rrValueType (OtherRR h) = None"

text \<open>The loop over \<open>r.Answer\<close>; a \<open>return\<close> inside the loop ends it.\<close>

fun checkAnswers :: "RR list \<Rightarrow> string \<Rightarrow> string \<Rightarrow> check_error option" where
  "checkAnswers [] eValue eType = None"
| "checkAnswers (a # rest) eValue eType =
     (case rrValueType a of
        None \<Rightarrow> checkAnswers rest eValue eType
      | Some (val, record_type) \<Rightarrow>
          if eValue \<noteq> [] \<and> eValue \<noteq> ToLower val
            then Some (ValueMismatch (ToLower val) eValue)
          else if eType \<noteq> [] \<and> eType \<noteq> record_type
            then Some (TypeMismatch record_type eType)
          else checkAnswers rest eValue eType)"

definition checkDNSResult :: "Msg \<Rightarrow> string \<Rightarrow> string \<Rightarrow> check_error option" where
  "checkDNSResult r eValue eType = checkAnswers (Msg_Answer r) eValue eType"

text \<open>
  What one answer contributes, in the words of the specification: an unsupported record
  is skipped; a supported one fails with a value mismatch when an expected value is set
  and differs from the lower-cased decoded value, otherwise with a type mismatch when an
  expected type is set and differs from the record's tag, otherwise it passes.
\<close>

definition answerMismatch :: "string \<Rightarrow> string \<Rightarrow> RR \<Rightarrow> check_error option" where
  "answerMismatch eValue eType a =
     (case rrValueType a of
        None \<Rightarrow> None
      | Some (val, record_type) \<Rightarrow>
          if eValue \<noteq> [] \<and> eValue \<noteq> ToLower val
            then Some (ValueMismatch (ToLower val) eValue)
          else if eType \<noteq> [] \<and> eType \<noteq> record_type
            then Some (TypeMismatch record_type eType)
          else None)"

section \<open>Configuration (\<open>config.go\<close>)\<close>

text \<open>
  The TLS settings are opaque to the monitor: only whether the pointer is \<open>nil\<close> is
  ever inspected. \<open>time.Duration\<close> is an integer number of nanoseconds. The fields
  \<open>TLS\<close> and \<open>Timeout\<close> of the transport settings carry the prefix \<open>Transport_\<close>, those of
  a decoded answer the prefix \<open>Ans_\<close>, to keep them apart from the fields of the same name
  in \<open>Config\<close> and \<open>responseParameters\<close>. The field \<open>Mode\<close> (the resolver's IP
  settings) plays no part in what follows and is left out.
\<close>

datatype tlscommon_Config = TLSSettings nat

record HTTPTransportSettings =
  Transport_TLS :: "tlscommon_Config option"
  Transport_Timeout :: int

record responseParameters =
  Authoritative :: bool
  RecordType :: string
  Value :: string

record checkConfig =
  Response :: responseParameters

record Config =
  DNSServers :: "string list"
  Target :: string
  Timeout :: int
  TLS :: "tlscommon_Config option"
  Transport :: HTTPTransportSettings
  Check :: checkConfig

text \<open>
  \<open>defaultConfig\<close>: every field at its zero value but the transport timeout of 16
  seconds; \<open>httpcommon.DefaultHTTPTransportSettings\<close> leaves the TLS settings \<open>nil\<close>.
\<close>

definition defaultConfig :: Config where
  "defaultConfig =
     \<lparr>DNSServers = [], Target = [], Timeout = 0, TLS = None,
      Transport = \<lparr>Transport_TLS = None, Transport_Timeout = 16 * 1000000000\<rparr>,
      Check = \<lparr>Response = \<lparr>Authoritative = False, RecordType = [], Value = []\<rparr>\<rparr>\<rparr>"

subsection \<open>\<open>url.URL\<close> and its accessors\<close>

text \<open>
  The fields of \<open>url.URL\<close>, without the two encoding hints \<open>RawPath\<close> and
  \<open>RawFragment\<close>, which the monitor never reads.
\<close>

record Userinfo =
  username :: string
  password :: string
  passwordSet :: bool

record url_URL =
  Scheme :: string
  Opaque :: string
  User :: "Userinfo option"
  Host :: string
  Path :: string
  OmitHost :: bool
  ForceQuery :: bool
  RawQuery :: string
  Fragment :: string

datatype url_cause =
    InvalidControlCharacter
  | MissingProtocolScheme
  | ColonInFirstPathSegment
  | MissingBracket
  | InvalidPortAfterHost string
  | EscapeError string
  | InvalidHostError string
  | InvalidUserinfo

text \<open>\<open>url.Error{Op, URL, Err}\<close>.\<close>

datatype url_Error = url_Error string string url_cause

definition isDigitByte :: "char \<Rightarrow> bool" where
  "isDigitByte c = (let n = (of_char c :: nat) in 48 \<le> n \<and> n \<le> 57)"

definition isLowerByte :: "char \<Rightarrow> bool" where
  "isLowerByte c = (let n = (of_char c :: nat) in 97 \<le> n \<and> n \<le> 122)"

text \<open>\<open>strings.LastIndexByte\<close>, with \<open>None\<close> for \<open>-1\<close>.\<close>

fun LastIndexByte :: "string \<Rightarrow> char \<Rightarrow> nat option" where
  "LastIndexByte [] c = None"
| "LastIndexByte (x # xs) c =
     (case LastIndexByte xs c of
        Some i \<Rightarrow> Some (Suc i)
      | None \<Rightarrow> if x = c then Some 0 else None)"

definition validOptionalPort :: "string \<Rightarrow> bool" where
  "validOptionalPort port =
     (case port of
        [] \<Rightarrow> True
      | c # rest \<Rightarrow> c = CHR '':'' \<and> list_all isDigitByte rest)"

definition splitHostPort :: "string \<Rightarrow> string \<times> string" where
  "splitHostPort hostPort =
     (let (host, port) =
            (case LastIndexByte hostPort CHR '':'' of
               Some colon \<Rightarrow>
                 if validOptionalPort (drop colon hostPort)
                 then (take colon hostPort, drop (Suc colon) hostPort)
                 else (hostPort, [])
             | None \<Rightarrow> (hostPort, []))
      in if host \<noteq> [] \<and> hd host = CHR ''['' \<and> last host = CHR '']''
         then (take (length host - 2) (drop 1 host), port)
         else (host, port))"

definition Hostname :: "url_URL \<Rightarrow> string" where
  "Hostname u = fst (splitHostPort (Host u))"

definition Port_of :: "url_URL \<Rightarrow> string" where
  "Port_of u = snd (splitHostPort (Host u))"

subsection \<open>\<open>strconv.Atoi\<close>\<close>

text \<open>
  \<open>strconv.Atoi\<close> on a platform whose \<open>int\<close> has 64 bits: an optional sign, then
  decimal digits. \<open>parseUint\<close> is the scan of \<open>strconv.ParseUint\<close> in base 10: a byte
  that is no digit is \<open>strconv.ErrSyntax\<close>, a value that leaves 64 bits is
  \<open>strconv.ErrRange\<close>, whichever the scan meets first; the bound of \<open>int\<close> is checked
  after the scan.
\<close>

datatype strconv_error = ErrSyntax | ErrRange

fun parseUint :: "int \<Rightarrow> string \<Rightarrow> strconv_error + int" where
  "parseUint n [] = Inr n"
| "parseUint n (c # cs) =
     (if \<not> isDigitByte c then Inl ErrSyntax
      else if (2 ^ 64 - 1) div 10 + 1 \<le> n then Inl ErrRange
      else if 2 ^ 64 - 1 < n * 10 + (of_char c - 48) then Inl ErrRange
      else parseUint (n * 10 + (of_char c - 48)) cs)"

definition Atoi :: "string \<Rightarrow> strconv_error + int" where
  "Atoi s =
     (if s = [] then Inl ErrSyntax
      else
        (let neg = (hd s = CHR ''-'');
             ds = (if hd s = CHR ''+'' \<or> hd s = CHR ''-'' then tl s else s)
         in if ds = [] then Inl ErrSyntax
            else (case parseUint 0 ds of
                    Inl err \<Rightarrow> Inl err
                  | Inr un \<Rightarrow>
                      if \<not> neg \<and> 2 ^ 63 \<le> un then Inl ErrRange
                      else if neg \<and> 2 ^ 63 < un then Inl ErrRange
                      else Inr (if neg then - un else un))))"

section \<open>The endpoint parser (\<open>parseDNSSvr\<close>)\<close>

record DNSSvr =
  U :: url_URL
  URL :: string
  Protocol :: string
  Address :: string
  Port :: int

datatype error =
    ParseError url_Error
  | InvalidProtocol string
  | AddressMandatory
  | InvalidPort strconv_error
  | InvalidDNSServer string
  | UnknownRecordType string

text \<open>
  \<open>url.Parse\<close> belongs to the Go standard library. The parser takes it as its first
  argument \<open>Parse\<close>, so that what is proved of \<open>parseDNSSvr\<close> for every \<open>Parse\<close> holds
  whatever the library's release; a model of it, \<open>url_Parse\<close>, is given further down and
  is what the concrete evaluations use.

  The function has three stages. \<open>parseAddr\<close> is the first \<open>url.Parse\<close> and, when it
  fails, the second one on the address with \<open>udp://\<close> in front; \<open>defaultScheme\<close> is the
  re-parse with \<open>udp://\<close> in front when the host came out empty; \<open>fromURL\<close> is the rest,
  from the \<open>switch\<close> on the scheme on. Each stage hands on the current value of the
  variable \<open>addr\<close> along with the parsed URL. Where the source returns an error, the
  partly filled \<open>ds\<close> it returns with it is dropped.
\<close>

definition parseAddr ::
  "(string \<Rightarrow> url_Error + url_URL) \<Rightarrow> string \<Rightarrow> error + (string \<times> url_URL)" where
  "parseAddr Parse addr =
     (case Parse (ToLower addr) of
        Inr u \<Rightarrow> Inr (addr, u)
      | Inl err \<Rightarrow>
          (let addr' = ''udp://'' @ addr in
           case Parse (ToLower addr') of
             Inl err' \<Rightarrow> Inl (ParseError err')
           | Inr u2 \<Rightarrow> Inr (addr', u2)))"

definition defaultScheme ::
  "(string \<Rightarrow> url_Error + url_URL) \<Rightarrow> string \<times> url_URL \<Rightarrow> error + (string \<times> url_URL)" where
  "defaultScheme Parse au =
     (case au of (addr, u) \<Rightarrow>
        if Host u = [] then
          (let addr' = ''udp://'' @ addr in
           case Parse (ToLower addr') of
             Inl err \<Rightarrow> Inl (ParseError err)
           | Inr u2 \<Rightarrow> Inr (addr', u2))
        else Inr (addr, u))"

definition fromURL :: "string \<times> url_URL \<Rightarrow> error + DNSSvr" where
  "fromURL au =
     (case au of (addr, u) \<Rightarrow>
        if ToLower (Scheme u) \<noteq> ''udp'' \<and> ToLower (Scheme u) \<noteq> ''tcp''
          then Inl (InvalidProtocol (Scheme u))
        else if Hostname u = [] then Inl AddressMandatory
        else
          (let ds = \<lparr>U = u, URL = addr, Protocol = ToLower (Scheme u),
                     Address = ToLower (Hostname u), Port = 53\<rparr>
           in if Port_of u \<noteq> [] then
                (case Atoi (Port_of u) of
                   Inl err \<Rightarrow> Inl (InvalidPort err)
                 | Inr port \<Rightarrow> Inr (ds\<lparr>Port := port\<rparr>))
              else Inr ds))"

definition parseDNSSvr ::
  "(string \<Rightarrow> url_Error + url_URL) \<Rightarrow> string \<Rightarrow> error + DNSSvr" where
  "parseDNSSvr Parse addr =
     (case parseAddr Parse addr of
        Inl err \<Rightarrow> Inl err
      | Inr au \<Rightarrow>
          (case defaultScheme Parse au of
             Inl err \<Rightarrow> Inl err
           | Inr au' \<Rightarrow> fromURL au'))"

text \<open>
  An address lacks a scheme when \<open>url.Parse\<close> finds none in it: the first parse fails
  (as it does for \<open>8.8.8.8:53\<close>) or returns a URL with an empty scheme (as it does for
  \<open>8.8.8.8\<close>).
\<close>

definition lacksScheme :: "(string \<Rightarrow> url_Error + url_URL) \<Rightarrow> string \<Rightarrow> bool" where
  "lacksScheme Parse addr =
     (case Parse (ToLower addr) of
        Inl err \<Rightarrow> True
      | Inr u \<Rightarrow> Scheme u = [])"

section \<open>Configuration validation\<close>

text \<open>\<open>responseParameters.Validate\<close>: a \<open>switch\<close> on the lower-cased record type.\<close>

definition Validate :: "responseParameters \<Rightarrow> error option" where
  "Validate r =
     (let t = ToLower (RecordType r) in
      if t = ''a'' \<or> t = ''aaaa'' \<or> t = ''cname'' \<or> t = ''txt'' then None
      else Some (UnknownRecordType (RecordType r)))"

text \<open>\<open>strings.Split(s, sep)\<close> for a separator of one byte.\<close>

fun Split :: "string \<Rightarrow> char \<Rightarrow> string list" where
  "Split [] sep = [[]]"
| "Split (c # cs) sep =
     (if c = sep then [] # Split cs sep
      else (case Split cs sep of
              part # parts \<Rightarrow> (c # part) # parts
            | [] \<Rightarrow> [[c]]))"

text \<open>
  \<open>isAlphanumeric\<close> ranges over the runes of the string. A rune decoded from bytes
  \<open>0x80\<close> and up is never below \<open>0x80\<close>, so it fails the test exactly as each of its bytes
  does, and the loop can be read over the bytes.
\<close>

definition isAlphanumericByte :: "char \<Rightarrow> bool" where
  "isAlphanumericByte r =
     (\<not> (\<not> isLowerByte r \<and> \<not> isUpperByte r \<and> \<not> isDigitByte r \<and> r \<noteq> CHR ''-''))"

fun isAlphanumeric :: "string \<Rightarrow> bool" where
  "isAlphanumeric [] = True"
| "isAlphanumeric (r # rs) = (if \<not> isAlphanumericByte r then False else isAlphanumeric rs)"

fun validParts :: "string list \<Rightarrow> bool" where
  "validParts [] = True"
| "validParts (part # parts) =
     (if length part = 0 \<or> 63 < length part \<or> \<not> isAlphanumeric part then False
      else validParts parts)"

definition isValidHostname :: "string \<Rightarrow> bool" where
  "isValidHostname hostname =
     (if 255 < length hostname then False
      else validParts (Split hostname CHR ''.''))"

text \<open>
  \<open>Config.ValidateDNS\<close>. \<open>net.ParseIP\<close> is the second function of the standard library
  involved; it is the argument \<open>ParseIP\<close>, with \<open>None\<close> for a \<open>nil\<close> result.
\<close>

fun validateServers ::
  "(string \<Rightarrow> url_Error + url_URL) \<Rightarrow> (string \<Rightarrow> IP option) \<Rightarrow> string list \<Rightarrow> error option" where
  "validateServers Parse ParseIP [] = None"
| "validateServers Parse ParseIP (server # rest) =
     (case parseDNSSvr Parse server of
        Inl err \<Rightarrow> Some err
      | Inr ds \<Rightarrow>
          if ParseIP (Address ds) = None \<and> \<not> isValidHostname (Address ds)
            then Some (InvalidDNSServer (Address ds))
          else validateServers Parse ParseIP rest)"

definition ValidateDNS ::
  "(string \<Rightarrow> url_Error + url_URL) \<Rightarrow> (string \<Rightarrow> IP option) \<Rightarrow> Config \<Rightarrow> error option" where
  "ValidateDNS Parse ParseIP c = validateServers Parse ParseIP (DNSServers c)"

text \<open>
  What is wrong with one entry of the server list, if anything: the body of the loop of
  \<open>ValidateDNS\<close> for that entry alone.
\<close>

definition serverProblem ::
  "(string \<Rightarrow> url_Error + url_URL) \<Rightarrow> (string \<Rightarrow> IP option) \<Rightarrow> string \<Rightarrow> error option" where
  "serverProblem Parse ParseIP server =
     (case parseDNSSvr Parse server of
        Inl err \<Rightarrow> Some err
      | Inr ds \<Rightarrow>
          if ParseIP (Address ds) = None \<and> \<not> isValidHostname (Address ds)
            then Some (InvalidDNSServer (Address ds))
          else None)"

section \<open>The probe (\<open>createPingFactory\<close>, \<open>execPing\<close>)\<close>

text \<open>
  The DNS client that the ping function of \<open>createPingFactory\<close> builds on every call:
  it starts out on \<open>udp\<close> and is moved to \<open>tcp-tls\<close> by the one \<open>if\<close> that follows.
  \<open>tlscfg\<close> is the TLS configuration preloaded by \<open>create\<close>, a pointer that may be
  \<open>nil\<close>; \<open>ToConfig\<close> stands for its conversion to a \<open>tls.Config\<close>.
\<close>

datatype tlscommon_TLSConfig = LoadedTLS nat

datatype tls_Config = ToConfig "tlscommon_TLSConfig option"

record dns_Client =
  Net :: string
  Client_Timeout :: int
  TLSConfig :: "tls_Config option"

definition pingClient :: "Config \<Rightarrow> DNSSvr \<Rightarrow> tlscommon_TLSConfig option \<Rightarrow> dns_Client" where
  "pingClient config dnssvr tlscfg =
     (let client = \<lparr>Net = ''udp'', Client_Timeout = Timeout config, TLSConfig = None\<rparr>
      in if Transport_TLS (Transport config) \<noteq> None \<and> Scheme (U dnssvr) = ''tcp''
         then client\<lparr>Net := ''tcp-tls'', TLSConfig := Some (ToConfig tlscfg)\<rparr>
         else client)"

text \<open>
  The decoded response and the fields \<open>execPing\<close> publishes from it. A \<open>mapstr.M\<close> is a
  map from keys to values of any type; it is an association list here, in the order the
  source writes the keys, looked up with \<open>mget\<close>.
\<close>

record DNSAnswer =
  Ans_Name :: string
  Ans_RRType :: string
  Ans_Value :: string
  Ans_TTL :: int

record DNSResponse =
  Answer :: "DNSAnswer list"
  DNSServer :: string
  TLS_ServerName :: string

datatype mval =
    MStr string
  | MInt int
  | MList "mval list"
  | MMap "(string \<times> mval) list"

fun mget :: "mval \<Rightarrow> string \<Rightarrow> mval option" where
  "mget (MMap kvs) k = map_of kvs k"
| "mget _ k = None"

fun mkeys :: "mval \<Rightarrow> string list" where
  "mkeys (MMap kvs) = map fst kvs"
| "mkeys _ = []"

definition ansFields :: "DNSAnswer \<Rightarrow> mval" where
  "ansFields rsp =
     MMap [(''record_type'', MStr (Ans_RRType rsp)),
           (''value'', MStr (Ans_Value rsp)),
           (''name'', MStr (Ans_Name rsp))]"

definition responseFields :: "DNSResponse \<Rightarrow> mval" where
  "responseFields resp =
     MMap [(''server'', MStr (DNSServer resp)),
           (''answers'', MList (map ansFields (Answer resp)))]"

text \<open>The value merged into the event under the key \<open>dns\<close> when the exchange succeeded.\<close>

definition dnsFields :: "DNSResponse \<Rightarrow> mval" where
  "dnsFields resp = MMap [(''response'', responseFields resp)]"

text \<open>The answer entries of the published record: \<open>dns.response.answers\<close>.\<close>

definition publishedAnswers :: "DNSResponse \<Rightarrow> mval list" where
  "publishedAnswers resp =
     (case mget (dnsFields resp) ''response'' of
        Some r \<Rightarrow> (case mget r ''answers'' of Some (MList entries) \<Rightarrow> entries | _ \<Rightarrow> [])
      | None \<Rightarrow> [])"

section \<open>A model of \<open>url.Parse\<close> and \<open>net.ParseIP\<close>\<close>

text \<open>
  The two functions of the Go standard library that the parser and the validator take as
  arguments, written after the library's sources (Go 1.22): \<open>url.Parse\<close> with
  \<open>getScheme\<close>, \<open>parseAuthority\<close>, \<open>parseHost\<close> and \<open>unescape\<close>, and \<open>net.ParseIP\<close>
  with the IPv4 and IPv6 text parsers of \<open>net/netip\<close>. They are what the concrete
  evaluations below instantiate \<open>Parse\<close> and \<open>ParseIP\<close> with.
\<close>

definition stringContainsCTLByte :: "string \<Rightarrow> bool" where
  "stringContainsCTLByte s = list_ex (\<lambda>b. (of_char b :: nat) < 32 \<or> (of_char b :: nat) = 127) s"

fun IndexByte :: "string \<Rightarrow> char \<Rightarrow> nat option" where
  "IndexByte [] c = None"
| "IndexByte (x # xs) c = (if x = c then Some 0 else map_option Suc (IndexByte xs c))"

fun Index :: "string \<Rightarrow> string \<Rightarrow> nat option" where
  "Index [] substr = (if substr = [] then Some 0 else None)"
| "Index (x # xs) substr =
     (if take (length substr) (x # xs) = substr then Some 0
      else map_option Suc (Index xs substr))"

definition HasPrefix :: "string \<Rightarrow> string \<Rightarrow> bool" where
  "HasPrefix s pre = (length pre \<le> length s \<and> take (length pre) s = pre)"

definition HasSuffix :: "string \<Rightarrow> string \<Rightarrow> bool" where
  "HasSuffix s suf = (length suf \<le> length s \<and> drop (length s - length suf) s = suf)"

text \<open>\<open>strings.Cut(s, sep)\<close> for a separator of one byte.\<close>

definition Cut :: "string \<Rightarrow> char \<Rightarrow> string \<times> string \<times> bool" where
  "Cut s sep =
     (case IndexByte s sep of
        Some i \<Rightarrow> (take i s, drop (Suc i) s, True)
      | None \<Rightarrow> (s, [], False))"

fun getSchemeFrom :: "string \<Rightarrow> nat \<Rightarrow> string \<Rightarrow> url_cause + (string \<times> string)" where
  "getSchemeFrom rawURL i [] = Inr ([], rawURL)"
| "getSchemeFrom rawURL i (c # cs) =
     (if isLowerByte c \<or> isUpperByte c then getSchemeFrom rawURL (Suc i) cs
      else if isDigitByte c \<or> c = CHR ''+'' \<or> c = CHR ''-'' \<or> c = CHR ''.'' then
        (if i = 0 then Inr ([], rawURL) else getSchemeFrom rawURL (Suc i) cs)
      else if c = CHR '':'' then
        (if i = 0 then Inl MissingProtocolScheme
         else Inr (take i rawURL, drop (Suc i) rawURL))
      else Inr ([], rawURL))"

definition getScheme :: "string \<Rightarrow> url_cause + (string \<times> string)" where
  "getScheme rawURL = getSchemeFrom rawURL 0 rawURL"

datatype encoding = encodePath | encodeHost | encodeZone | encodeUserPassword | encodeFragment

definition ishex :: "char \<Rightarrow> bool" where
  "ishex c = (let n = (of_char c :: nat) in
     (48 \<le> n \<and> n \<le> 57) \<or> (97 \<le> n \<and> n \<le> 102) \<or> (65 \<le> n \<and> n \<le> 70))"

definition unhex :: "char \<Rightarrow> nat" where
  "unhex c = (let n = (of_char c :: nat) in
     if 48 \<le> n \<and> n \<le> 57 then n - 48
     else if 97 \<le> n \<and> n \<le> 102 then n - 97 + 10
     else if 65 \<le> n \<and> n \<le> 70 then n - 65 + 10
     else 0)"

text \<open>\<open>shouldEscape(c, encodeHost)\<close>: the bytes that may not stand in a host as they are.\<close>

definition shouldEscapeHost :: "char \<Rightarrow> bool" where
  "shouldEscapeHost c =
     (\<not> (isLowerByte c \<or> isUpperByte c \<or> isDigitByte c
         \<or> c \<in> set ''!$&()*+,;=:[]<>'' \<or> c = CHR 0x27 \<or> c = CHR 0x22
         \<or> c \<in> set ''-_.~''))"

fun unescape :: "string \<Rightarrow> encoding \<Rightarrow> url_cause + string" where
  "unescape [] mode = Inr []"
| "unescape (c # cs) mode =
     (if c = CHR ''%'' then
        (case cs of
           h1 # h2 # rest \<Rightarrow>
             if \<not> ishex h1 \<or> \<not> ishex h2 then Inl (EscapeError [c, h1, h2])
             else if mode = encodeHost \<and> unhex h1 < 8 \<and> [c, h1, h2] \<noteq> ''%25''
               then Inl (EscapeError [c, h1, h2])
             else if mode = encodeZone \<and> [c, h1, h2] \<noteq> ''%25''
                     \<and> unhex h1 * 16 + unhex h2 \<noteq> 32
                     \<and> shouldEscapeHost (char_of (unhex h1 * 16 + unhex h2))
               then Inl (EscapeError [c, h1, h2])
             else (case unescape rest mode of
                     Inl err \<Rightarrow> Inl err
                   | Inr t \<Rightarrow> Inr (char_of (unhex h1 * 16 + unhex h2) # t))
         | _ \<Rightarrow> Inl (EscapeError (c # cs)))
      else if (mode = encodeHost \<or> mode = encodeZone) \<and> (of_char c :: nat) < 128
              \<and> shouldEscapeHost c
        then Inl (InvalidHostError [c])
      else (case unescape cs mode of
              Inl err \<Rightarrow> Inl err
            | Inr t \<Rightarrow> Inr (c # t)))"

definition parseHost :: "string \<Rightarrow> url_cause + string" where
  "parseHost host =
     (if HasPrefix host ''[''
      then (case LastIndexByte host CHR '']'' of
              None \<Rightarrow> Inl MissingBracket
            | Some i \<Rightarrow>
                if \<not> validOptionalPort (drop (Suc i) host)
                  then Inl (InvalidPortAfterHost (drop (Suc i) host))
                else (case Index (take i host) ''%25'' of
                        Some zone \<Rightarrow>
                          (case unescape (take zone host) encodeHost of
                             Inl err \<Rightarrow> Inl err
                           | Inr host1 \<Rightarrow>
                          (case unescape (drop zone (take i host)) encodeZone of
                             Inl err \<Rightarrow> Inl err
                           | Inr host2 \<Rightarrow>
                          (case unescape (drop i host) encodeHost of
                             Inl err \<Rightarrow> Inl err
                           | Inr host3 \<Rightarrow> Inr (host1 @ host2 @ host3))))
                      | None \<Rightarrow> unescape host encodeHost))
      else (case LastIndexByte host CHR '':'' of
              Some i \<Rightarrow>
                if \<not> validOptionalPort (drop i host)
                  then Inl (InvalidPortAfterHost (drop i host))
                else unescape host encodeHost
            | None \<Rightarrow> unescape host encodeHost))"

definition validUserinfoByte :: "char \<Rightarrow> bool" where
  "validUserinfoByte r =
     (isUpperByte r \<or> isLowerByte r \<or> isDigitByte r
      \<or> r \<in> set ''-._:~!$&()*+,;=%@'' \<or> r = CHR 0x27)"

definition validUserinfo :: "string \<Rightarrow> bool" where
  "validUserinfo s = list_all validUserinfoByte s"

definition parseAuthority :: "string \<Rightarrow> url_cause + (Userinfo option \<times> string)" where
  "parseAuthority authority =
     (case LastIndexByte authority CHR ''@'' of
        None \<Rightarrow>
          (case parseHost authority of
             Inl err \<Rightarrow> Inl err
           | Inr host \<Rightarrow> Inr (None, host))
      | Some i \<Rightarrow>
          (case parseHost (drop (Suc i) authority) of
             Inl err \<Rightarrow> Inl err
           | Inr host \<Rightarrow>
               (let userinfo = take i authority in
                if \<not> validUserinfo userinfo then Inl InvalidUserinfo
                else if CHR '':'' \<notin> set userinfo then
                  (case unescape userinfo encodeUserPassword of
                     Inl err \<Rightarrow> Inl err
                   | Inr name \<Rightarrow>
                       Inr (Some \<lparr>username = name, password = [], passwordSet = False\<rparr>, host))
                else
                  (case Cut userinfo CHR '':'' of (name0, pass0, found) \<Rightarrow>
                     (case unescape name0 encodeUserPassword of
                        Inl err \<Rightarrow> Inl err
                      | Inr name \<Rightarrow>
                     (case unescape pass0 encodeUserPassword of
                        Inl err \<Rightarrow> Inl err
                      | Inr pass \<Rightarrow>
                          Inr (Some \<lparr>username = name, password = pass, passwordSet = True\<rparr>,
                               host)))))))"

definition setPath :: "url_URL \<Rightarrow> string \<Rightarrow> url_cause + url_URL" where
  "setPath u p =
     (case unescape p encodePath of
        Inl err \<Rightarrow> Inl err
      | Inr path \<Rightarrow> Inr (u\<lparr>Path := path\<rparr>))"

definition emptyURL :: url_URL where
  "emptyURL = \<lparr>Scheme = [], Opaque = [], User = None, Host = [], Path = [],
               OmitHost = False, ForceQuery = False, RawQuery = [], Fragment = []\<rparr>"

text \<open>The unexported \<open>parse(rawURL, viaRequest)\<close> at \<open>viaRequest = false\<close>.\<close>

definition parse :: "string \<Rightarrow> url_cause + url_URL" where
  "parse rawURL =
     (if stringContainsCTLByte rawURL then Inl InvalidControlCharacter
      else if rawURL = ''*'' then Inr (emptyURL\<lparr>Path := ''*''\<rparr>)
      else
        (case getScheme rawURL of
           Inl err \<Rightarrow> Inl err
         | Inr (scheme, rest0) \<Rightarrow>
             (let url0 = emptyURL\<lparr>Scheme := ToLower scheme\<rparr>;
                  (rest, url) =
                    (if HasSuffix rest0 ''?'' \<and> count_list rest0 CHR ''?'' = 1
                     then (butlast rest0, url0\<lparr>ForceQuery := True\<rparr>)
                     else (case Cut rest0 CHR ''?'' of (before, after, found) \<Rightarrow>
                             (before, url0\<lparr>RawQuery := after\<rparr>)))
              in if \<not> HasPrefix rest ''/'' \<and> Scheme url \<noteq> []
                   then Inr (url\<lparr>Opaque := rest\<rparr>)
                 else if \<not> HasPrefix rest ''/''
                         \<and> CHR '':'' \<in> set (fst (Cut rest CHR ''/''))
                   then Inl ColonInFirstPathSegment
                 else if (Scheme url \<noteq> [] \<or> \<not> HasPrefix rest ''///'') \<and> HasPrefix rest ''//''
                   then
                     (let (authority, rest') =
                            (case IndexByte (drop 2 rest) CHR ''/'' of
                               Some i \<Rightarrow> (take i (drop 2 rest), drop i (drop 2 rest))
                             | None \<Rightarrow> (drop 2 rest, []))
                      in case parseAuthority authority of
                           Inl err \<Rightarrow> Inl err
                         | Inr (user, host) \<Rightarrow> setPath (url\<lparr>User := user, Host := host\<rparr>) rest')
                 else if Scheme url \<noteq> [] \<and> HasPrefix rest ''/''
                   then setPath (url\<lparr>OmitHost := True\<rparr>) rest
                 else setPath url rest)))"

definition url_Parse :: "string \<Rightarrow> url_Error + url_URL" where
  "url_Parse rawURL =
     (case Cut rawURL CHR ''#'' of (u, frag, found) \<Rightarrow>
        (case parse u of
           Inl err \<Rightarrow> Inl (url_Error ''parse'' u err)
         | Inr url \<Rightarrow>
             if frag = [] then Inr url
             else (case unescape frag encodeFragment of
                     Inl err \<Rightarrow> Inl (url_Error ''parse'' rawURL err)
                   | Inr f \<Rightarrow> Inr (url\<lparr>Fragment := f\<rparr>))))"

subsection \<open>\<open>net.ParseIP\<close>\<close>

text \<open>
  The loop of \<open>parseIPv4Fields\<close>: \<open>prev\<close> is the byte before the current one (\<open>None\<close> at
  index 0), \<open>octets\<close> the octets completed so far, so that \<open>pos\<close> is their number.
\<close>

fun parseIPv4Fields :: "char option \<Rightarrow> nat \<Rightarrow> nat \<Rightarrow> IP \<Rightarrow> string \<Rightarrow> IP option" where
  "parseIPv4Fields prev val digLen octets [] =
     (if length octets < 3 then None else Some (octets @ [of_nat val]))"
| "parseIPv4Fields prev val digLen octets (c # cs) =
     (if isDigitByte c then
        (if digLen = 1 \<and> val = 0 then None
         else if 255 < val * 10 + (of_char c - 48) then None
         else parseIPv4Fields (Some c) (val * 10 + (of_char c - 48)) (Suc digLen) octets cs)
      else if c = CHR ''.'' then
        (if prev = None \<or> cs = [] \<or> prev = Some CHR ''.'' then None
         else if length octets = 3 then None
         else parseIPv4Fields (Some c) 0 0 (octets @ [of_nat val]) cs)
      else None)"

definition parseIPv4 :: "string \<Rightarrow> IP option" where
  "parseIPv4 s = parseIPv4Fields None 0 0 [] s"

definition hexValue :: "string \<Rightarrow> nat" where
  "hexValue hs = foldl (\<lambda>acc c. acc * 16 + unhex c) 0 hs"

text \<open>
  The main loop of \<open>parseIPv6\<close>: \<open>i\<close> is the number of bytes of the address filled so
  far, which are \<open>ip\<close>; the result is the state at the \<open>break\<close> or at \<open>i = 16\<close>.
\<close>

function parseIPv6Groups ::
  "nat \<Rightarrow> nat option \<Rightarrow> IP \<Rightarrow> string \<Rightarrow> (nat \<times> nat option \<times> IP \<times> string) option" where
  "parseIPv6Groups i ellipsis ip s =
     (if \<not> i < 16 then Some (i, ellipsis, ip, s)
      else
        (let off = length (takeWhile ishex s) in
         if 4 < off then None
         else if off = 0 then None
         else if off < length s \<and> s ! off = CHR ''.'' then
           (if ellipsis = None \<and> i \<noteq> 12 then None
            else if 16 < i + 4 then None
            else (case parseIPv4 s of
                    None \<Rightarrow> None
                  | Some octets \<Rightarrow> Some (i + 4, ellipsis, ip @ octets, [])))
         else
           (let acc = hexValue (take off s);
                ip' = ip @ [of_nat (acc div 256), of_nat (acc mod 256)];
                s' = drop off s
            in if s' = [] then Some (i + 2, ellipsis, ip', s')
               else if hd s' \<noteq> CHR '':'' then None
               else if length s' = 1 then None
               else if hd (tl s') = CHR '':'' then
                 (if ellipsis \<noteq> None then None
                  else if tl (tl s') = [] then Some (i + 2, Some (i + 2), ip', [])
                  else parseIPv6Groups (i + 2) (Some (i + 2)) ip' (tl (tl s')))
               else parseIPv6Groups (i + 2) ellipsis ip' (tl s'))))"
  by pat_completeness auto
termination
  by (relation "measure (\<lambda>(i, ellipsis, ip, s). 16 - i)") auto

definition parseIPv6 :: "string \<Rightarrow> IP option" where
  "parseIPv6 s0 =
     (if CHR ''%'' \<in> set s0 then None
      else
        (let (ellipsis0, s) = (if HasPrefix s0 ''::'' then (Some 0, drop 2 s0) else (None, s0))
         in if ellipsis0 \<noteq> None \<and> s = [] then Some (replicate 16 0)
            else (case parseIPv6Groups 0 ellipsis0 [] s of
                    None \<Rightarrow> None
                  | Some (i, ellipsis, ip, rest) \<Rightarrow>
                      if rest \<noteq> [] then None
                      else if i < 16 then
                        (case ellipsis of
                           None \<Rightarrow> None
                         | Some e \<Rightarrow> Some (take e ip @ replicate (16 - i) 0 @ drop e ip))
                      else if ellipsis \<noteq> None then None
                      else Some ip)))"

text \<open>
  \<open>net.ParseIP\<close>: the first of \<open>.\<close>, \<open>:\<close> and \<open>%\<close> in the string decides between the two
  parsers; an IPv4 address comes back in its 16-byte form; an address with a zone is
  refused.
\<close>

fun firstSeparator :: "string \<Rightarrow> char option" where
  "firstSeparator [] = None"
| "firstSeparator (c # cs) =
     (if c = CHR ''.'' \<or> c = CHR '':'' \<or> c = CHR ''%'' then Some c else firstSeparator cs)"

definition net_ParseIP :: "string \<Rightarrow> IP option" where
  "net_ParseIP s =
     (case firstSeparator s of
        None \<Rightarrow> None
      | Some c \<Rightarrow>
          if c = CHR ''.'' then
            map_option (\<lambda>p4. replicate 10 0 @ [0xff, 0xff] @ p4) (parseIPv4 s)
          else if c = CHR '':'' then parseIPv6 s
          else None)"

section \<open>Properties of the response validator\<close>

lemma checkAnswers_Cons:
  "checkAnswers (a # rest) eValue eType =
     (case answerMismatch eValue eType a of
        Some e \<Rightarrow> Some e
      | None \<Rightarrow> checkAnswers rest eValue eType)"
  by (cases "rrValueType a") (simp_all add: answerMismatch_def split: prod.splits)

lemma checkAnswers_find:
  "checkAnswers as eValue eType =
     (case List.find (\<lambda>a. answerMismatch eValue eType a \<noteq> None) as of
        None \<Rightarrow> None
      | Some a \<Rightarrow> answerMismatch eValue eType a)"
proof (induction as)
  case Nil
  show ?case by simp
next
  case (Cons a as)
  show ?case
  proof (cases "answerMismatch eValue eType a")
    case None
    then show ?thesis using Cons.IH by (simp add: checkAnswers_Cons del: checkAnswers.simps)
  next
    case (Some e)
    then show ?thesis by (simp add: checkAnswers_Cons del: checkAnswers.simps)
  qed
qed

text \<open>
  C1. An exchange result whose answer sequence is empty validates successfully against
  every expectation, so in particular against every non-empty one (an expected value, an
  expected record type, or both): the loop body never runs and \<open>nil\<close> is returned.
\<close>

theorem checkDNSResult_empty_answer:
  "checkDNSResult \<lparr>Msg_Answer = []\<rparr> eValue eType = None"
  by (simp add: checkDNSResult_def)

text \<open>The case "No matching record" of the repository's \<open>TestCheckDNSResult\<close>.\<close>

theorem checkDNSResult_empty_answer_witness:
  "checkDNSResult \<lparr>Msg_Answer = []\<rparr> ''notexist'' ''a'' = None"
  by (rule checkDNSResult_empty_answer)

text \<open>
  C5. The validator goes through the answers in the order received and returns the
  verdict of the first answer that has one: unsupported records have none; a supported
  record yields a value mismatch, carrying the lower-cased actual value and the expected
  value, when an expected value is set and differs from the lower-cased decoded value;
  otherwise a type mismatch, carrying the record's tag and the expected type, when an
  expected type is set and differs from the tag (\<open>answerMismatch\<close>). With no such
  answer the result is \<open>nil\<close>.
\<close>

theorem checkDNSResult_first_mismatch:
  "checkDNSResult r eValue eType =
     (case List.find (\<lambda>a. answerMismatch eValue eType a \<noteq> None) (Msg_Answer r) of
        None \<Rightarrow> None
      | Some a \<Rightarrow> answerMismatch eValue eType a)"
  unfolding checkDNSResult_def by (rule checkAnswers_find)

text \<open>
  An unsupported record, a matching A record, then a CNAME and an A record that both
  mismatch: the CNAME, the first of the two, decides, with the message the repository's
  test "Invalid record type" expects.
\<close>

theorem checkDNSResult_first_mismatch_witness:
  "checkDNSResult
     \<lparr>Msg_Answer =
        [OtherRR \<lparr>Hdr_Name = ''example.com.'', Hdr_Rrtype = 15, Hdr_Class = 1, Hdr_Ttl = 60\<rparr>,
         A \<lparr>Hdr_Name = ''example.com.'', Hdr_Rrtype = 1, Hdr_Class = 1, Hdr_Ttl = 60\<rparr>
           [8, 8, 8, 8],
         CNAME \<lparr>Hdr_Name = ''example.com.'', Hdr_Rrtype = 5, Hdr_Class = 1, Hdr_Ttl = 60\<rparr>
           ''8.8.8.8'',
         A \<lparr>Hdr_Name = ''example.com.'', Hdr_Rrtype = 1, Hdr_Class = 1, Hdr_Ttl = 60\<rparr>
           [8, 8, 4, 4]]\<rparr>
     ''8.8.8.8'' ''a''
   = Some (TypeMismatch ''cname'' ''a'')
   \<and> check_error_msg (TypeMismatch ''cname'' ''a'')
       = ''record type of '' @ [CHR 0x27] @ ''cname'' @ [CHR 0x27]
           @ '' does not match expected type '' @ [CHR 0x27] @ ''a'' @ [CHR 0x27]"
proof -
  let ?r = "\<lparr>Msg_Answer =
        [OtherRR \<lparr>Hdr_Name = ''example.com.'', Hdr_Rrtype = 15, Hdr_Class = 1, Hdr_Ttl = 60\<rparr>,
         A \<lparr>Hdr_Name = ''example.com.'', Hdr_Rrtype = 1, Hdr_Class = 1, Hdr_Ttl = 60\<rparr>
           [8, 8, 8, 8],
         CNAME \<lparr>Hdr_Name = ''example.com.'', Hdr_Rrtype = 5, Hdr_Class = 1, Hdr_Ttl = 60\<rparr>
           ''8.8.8.8'',
         A \<lparr>Hdr_Name = ''example.com.'', Hdr_Rrtype = 1, Hdr_Class = 1, Hdr_Ttl = 60\<rparr>
           [8, 8, 4, 4]]\<rparr>"
  have "(case List.find (\<lambda>a. answerMismatch ''8.8.8.8'' ''a'' a \<noteq> None) (Msg_Answer ?r) of
           None \<Rightarrow> None
         | Some a \<Rightarrow> answerMismatch ''8.8.8.8'' ''a'' a) = Some (TypeMismatch ''cname'' ''a'')"
    by code_simp
  then show ?thesis
    using checkDNSResult_first_mismatch[of ?r "''8.8.8.8''" "''a''"] by simp
qed

lemma isUpperByte_toLowerByte: "\<not> isUpperByte (toLowerByte c)"
  by (auto simp: toLowerByte_def isUpperByte_def Let_def)

lemma ToLower_no_upper: "c \<in> set (ToLower s) \<Longrightarrow> \<not> isUpperByte c"
  by (auto simp: ToLower_def isUpperByte_toLowerByte)

lemma ToLower_neq_upper:
  assumes "c \<in> set eValue" "isUpperByte c"
  shows "eValue \<noteq> ToLower v"
  using assms ToLower_no_upper by metis

lemma checkAnswers_upper:
  assumes up: "c \<in> set eValue" "isUpperByte c"
  shows "a \<in> set as \<Longrightarrow> rrValueType a \<noteq> None \<Longrightarrow>
         \<exists>b v t. b \<in> set as \<and> rrValueType b = Some (v, t)
            \<and> checkAnswers as eValue eType = Some (ValueMismatch (ToLower v) eValue)"
proof (induction as)
  case Nil
  then show ?case by simp
next
  case (Cons x xs)
  have ne: "eValue \<noteq> []" using up by auto
  show ?case
  proof (cases "rrValueType x")
    case None
    with Cons.prems have "a \<in> set xs" by auto
    from Cons.IH[OF this Cons.prems(2)] None show ?thesis by auto
  next
    case (Some vt)
    obtain v t where vt: "vt = (v, t)" by (cases vt)
    have "eValue \<noteq> ToLower v" using up by (rule ToLower_neq_upper)
    with Some vt ne show ?thesis by auto
  qed
qed

text \<open>
  C9. The decoded value is lower-cased before the comparison and the expected value is
  not. So when the expected value contains an upper-case letter (\<open>A\<close> .. \<open>Z\<close>) and the
  response has at least one answer of a supported record type, validation returns a
  value mismatch, whatever the answers and the expected type are: its actual value is
  the lower-cased value of a supported answer, its expected value the configured one.
\<close>

theorem checkDNSResult_uppercase_expectation:
  assumes "\<exists>c \<in> set eValue. isUpperByte c"
      and "\<exists>a \<in> set (Msg_Answer r). rrValueType a \<noteq> None"
  shows "\<exists>a v t. a \<in> set (Msg_Answer r) \<and> rrValueType a = Some (v, t)
            \<and> checkDNSResult r eValue eType = Some (ValueMismatch (ToLower v) eValue)"
  using assms checkAnswers_upper unfolding checkDNSResult_def by blast

text \<open>
  The CNAME answer of the repository's test "Valid CNAME record", against the same name
  written with a capital: the two differ only in case, and validation fails.
\<close>

theorem checkDNSResult_uppercase_expectation_witness:
  "isUpperByte CHR ''A''
   \<and> rrValueType (CNAME \<lparr>Hdr_Name = ''example.com.'', Hdr_Rrtype = 5, Hdr_Class = 1,
                           Hdr_Ttl = 60\<rparr> ''alias.example.com.'') \<noteq> None
   \<and> checkDNSResult
       \<lparr>Msg_Answer = [CNAME \<lparr>Hdr_Name = ''example.com.'', Hdr_Rrtype = 5, Hdr_Class = 1,
                                Hdr_Ttl = 60\<rparr> ''alias.example.com.'']\<rparr>
       ''Alias.example.com.'' ''cname''
     = Some (ValueMismatch ''alias.example.com.'' ''Alias.example.com.'')"
proof -
  let ?a = "CNAME \<lparr>Hdr_Name = ''example.com.'', Hdr_Rrtype = 5, Hdr_Class = 1,
                   Hdr_Ttl = 60\<rparr> ''alias.example.com.''"
  have up: "isUpperByte CHR ''A''" by code_simp
  have h1: "\<exists>c \<in> set ''Alias.example.com.''. isUpperByte c" using up by simp
  have h2: "\<exists>a \<in> set (Msg_Answer \<lparr>Msg_Answer = [?a]\<rparr>). rrValueType a \<noteq> None" by simp
  have low: "ToLower ''alias.example.com.'' = ''alias.example.com.''" by code_simp
  from checkDNSResult_uppercase_expectation[OF h1 h2, of "''cname''"] low up
  show ?thesis by auto
qed

section \<open>Properties of configuration validation\<close>

text \<open>
  C2, as the code has it. \<open>Validate\<close> accepts a record type exactly when its lower-cased
  form is one of \<open>a\<close>, \<open>aaaa\<close>, \<open>cname\<close> and \<open>txt\<close>. The empty record type is not among
  them and is refused like every other string outside the set.
\<close>

theorem Validate_accepts:
  "Validate r = None \<longleftrightarrow> ToLower (RecordType r) \<in> {''a'', ''aaaa'', ''cname'', ''txt''}"
  by (simp add: Validate_def Let_def)

theorem Validate_accepts_witness:
  "Validate \<lparr>Authoritative = False, RecordType = ''CName'', Value = []\<rparr> = None
   \<and> Validate \<lparr>Authoritative = False, RecordType = ''invalid'', Value = []\<rparr> \<noteq> None"
proof -
  have 1: "ToLower (RecordType \<lparr>Authoritative = False, RecordType = ''CName'', Value = []\<rparr>)
             \<in> {''a'', ''aaaa'', ''cname'', ''txt''}" by code_simp
  have 2: "ToLower (RecordType \<lparr>Authoritative = False, RecordType = ''invalid'', Value = []\<rparr>)
             \<notin> {''a'', ''aaaa'', ''cname'', ''txt''}" by code_simp
  from 1 2 show ?thesis
    using Validate_accepts[of "\<lparr>Authoritative = False, RecordType = ''CName'', Value = []\<rparr>"]
          Validate_accepts[of "\<lparr>Authoritative = False, RecordType = ''invalid'', Value = []\<rparr>"]
    by blast
qed

text \<open>
  C2 as stated fails: the unset record type is refused, with the error naming the empty
  string, as the case "Empty record type" of the repository's
  \<open>TestResponseParametersValidate\<close> expects.
\<close>

theorem Validate_empty_counterexample:
  "Validate \<lparr>Authoritative = False, RecordType = [], Value = []\<rparr> = Some (UnknownRecordType [])"
  by code_simp

lemma validateServers_Cons:
  "validateServers Parse ParseIP (server # rest) =
     (case serverProblem Parse ParseIP server of
        Some err \<Rightarrow> Some err
      | None \<Rightarrow> validateServers Parse ParseIP rest)"
  by (simp add: serverProblem_def split: sum.splits)

lemma validateServers_find:
  "validateServers Parse ParseIP servers =
     (case List.find (\<lambda>s. serverProblem Parse ParseIP s \<noteq> None) servers of
        None \<Rightarrow> None
      | Some s \<Rightarrow> serverProblem Parse ParseIP s)"
proof (induction servers)
  case Nil
  show ?case by simp
next
  case (Cons s servers)
  show ?case
  proof (cases "serverProblem Parse ParseIP s")
    case None
    then show ?thesis using Cons.IH by (simp add: validateServers_Cons del: validateServers.simps)
  next
    case (Some e)
    then show ?thesis by (simp add: validateServers_Cons del: validateServers.simps)
  qed
qed

lemma validateServers_None:
  "validateServers Parse ParseIP servers = None \<Longrightarrow> s \<in> set servers
   \<Longrightarrow> serverProblem Parse ParseIP s = None"
proof (induction servers)
  case Nil
  then show ?case by simp
next
  case (Cons x xs)
  then show ?case
    by (cases "serverProblem Parse ParseIP x")
       (auto simp: validateServers_Cons simp del: validateServers.simps)
qed

lemma serverProblem_None_parses:
  "serverProblem Parse ParseIP s = None \<Longrightarrow> \<exists>ds. parseDNSSvr Parse s = Inr ds"
  by (auto simp: serverProblem_def split: sum.splits)

text \<open>
  C3, as the code has it. \<open>ValidateDNS\<close> stops at the first problem: its result is the
  error of the first entry of the server list, in list order, that does not parse or
  whose host is neither an IP literal nor a valid hostname, and \<open>nil\<close> when there is no
  such entry. The entries after that one are not looked at.
\<close>

theorem ValidateDNS_first_problem:
  "ValidateDNS Parse ParseIP c =
     (case List.find (\<lambda>s. serverProblem Parse ParseIP s \<noteq> None) (DNSServers c) of
        None \<Rightarrow> None
      | Some s \<Rightarrow> serverProblem Parse ParseIP s)"
  unfolding ValidateDNS_def by (rule validateServers_find)

theorem ValidateDNS_first_problem_witness:
  "ValidateDNS url_Parse net_ParseIP
     (defaultConfig\<lparr>DNSServers := [''8.8.8.8'', ''ftp://x'', ''invalid..hostname'']\<rparr>)
   = Some (InvalidProtocol ''ftp'')"
proof -
  let ?c = "defaultConfig\<lparr>DNSServers := [''8.8.8.8'', ''ftp://x'', ''invalid..hostname'']\<rparr>"
  have "(case List.find (\<lambda>s. serverProblem url_Parse net_ParseIP s \<noteq> None) (DNSServers ?c) of
           None \<Rightarrow> None
         | Some s \<Rightarrow> serverProblem url_Parse net_ParseIP s) = Some (InvalidProtocol ''ftp'')"
    by code_simp
  then show ?thesis
    using ValidateDNS_first_problem[of url_Parse net_ParseIP ?c] by simp
qed

text \<open>
  C3 as stated fails. Both entries of this list are invalid, each with an error of its
  own; the error returned is the first entry's alone, the same as the one returned for
  the list without the second entry.
\<close>

theorem ValidateDNS_fail_fast_counterexample:
  "serverProblem url_Parse net_ParseIP ''invalid..hostname''
     = Some (InvalidDNSServer ''invalid..hostname'')
   \<and> serverProblem url_Parse net_ParseIP ''bad_host'' = Some (InvalidDNSServer ''bad_host'')
   \<and> ValidateDNS url_Parse net_ParseIP
       (defaultConfig\<lparr>DNSServers := [''invalid..hostname'', ''bad_host'']\<rparr>)
     = Some (InvalidDNSServer ''invalid..hostname'')
   \<and> ValidateDNS url_Parse net_ParseIP
       (defaultConfig\<lparr>DNSServers := [''invalid..hostname'', ''bad_host'']\<rparr>)
     = ValidateDNS url_Parse net_ParseIP (defaultConfig\<lparr>DNSServers := [''invalid..hostname'']\<rparr>)"
  by code_simp

text \<open>
  C4, the three of its four cases that the code gets right: a list of \<open>example.com\<close> and
  \<open>8.8.8.8\<close> validates, the first as a hostname and the second as an IP literal, and a list
  with \<open>invalid..hostname\<close> is refused for its empty label.
\<close>

lemma ValidateDNS_hostname_examples:
  "ValidateDNS url_Parse net_ParseIP (defaultConfig\<lparr>DNSServers := [''example.com'', ''8.8.8.8'']\<rparr>)
     = None
   \<and> isValidHostname ''example.com''
   \<and> net_ParseIP ''8.8.8.8'' \<noteq> None
   \<and> \<not> isValidHostname ''invalid..hostname''
   \<and> ValidateDNS url_Parse net_ParseIP (defaultConfig\<lparr>DNSServers := [''invalid..hostname'']\<rparr>)
     = Some (InvalidDNSServer ''invalid..hostname'')"
  by code_simp

text \<open>
  C4, the fourth case, where the code departs from the claim: \<open>256.256.256.256\<close> is not
  an IP literal, but each of its four labels is alphanumeric and of length three, so
  \<open>isValidHostname\<close> accepts it and a server list holding it alone validates.
\<close>

theorem ValidateDNS_accepts_256:
  "net_ParseIP ''256.256.256.256'' = None
   \<and> isValidHostname ''256.256.256.256''
   \<and> ValidateDNS url_Parse net_ParseIP (defaultConfig\<lparr>DNSServers := [''256.256.256.256'']\<rparr>)
     = None"
  by code_simp

text \<open>
  C10. When \<open>ValidateDNS\<close> returns no error, \<open>parseDNSSvr\<close> succeeds on every string of
  the configured server list. \<open>create\<close> calls \<open>parseDNSSvr\<close> on those same strings after
  \<open>ValidateDNS\<close> has returned \<open>nil\<close>, so the error it discards there is always \<open>nil\<close>.
\<close>

theorem ValidateDNS_ok_parses:
  assumes "ValidateDNS Parse ParseIP c = None"
  shows "\<forall>server \<in> set (DNSServers c). \<exists>ds. parseDNSSvr Parse server = Inr ds"
  using assms validateServers_None serverProblem_None_parses
  unfolding ValidateDNS_def by blast

theorem ValidateDNS_ok_parses_witness:
  "ValidateDNS url_Parse net_ParseIP
     (defaultConfig\<lparr>DNSServers := [''8.8.8.8'', ''dns.google:53'']\<rparr>) = None
   \<and> (\<exists>ds. parseDNSSvr url_Parse ''8.8.8.8'' = Inr ds)
   \<and> (\<exists>ds. parseDNSSvr url_Parse ''dns.google:53'' = Inr ds)"
proof -
  have h: "ValidateDNS url_Parse net_ParseIP
             (defaultConfig\<lparr>DNSServers := [''8.8.8.8'', ''dns.google:53'']\<rparr>) = None"
    by code_simp
  from ValidateDNS_ok_parses[OF h] h show ?thesis by simp
qed

section \<open>Properties of the endpoint parser\<close>

lemma Hostname_nonempty_Host: "Hostname u \<noteq> [] \<Longrightarrow> Host u \<noteq> []"
  by (auto simp: Hostname_def splitHostPort_def)

lemma ToLower_Nil: "ToLower [] = []"
  by (simp add: ToLower_def)

lemma fromURL_Inr:
  "fromURL (addr, u) = Inr ds \<Longrightarrow> URL ds = addr \<and> U ds = u \<and> Host u \<noteq> [] \<and> Scheme u \<noteq> []"
  by (auto simp: fromURL_def Let_def Hostname_nonempty_Host ToLower_Nil
           split: if_splits sum.splits)

lemma parseDNSSvr_Inr:
  assumes "parseDNSSvr Parse addr = Inr ds"
  shows "Parse (ToLower (URL ds)) = Inr (U ds) \<and> Host (U ds) \<noteq> [] \<and> Scheme (U ds) \<noteq> []
         \<and> fromURL (URL ds, U ds) = Inr ds"
proof -
  from assms obtain au au' where
    a: "parseAddr Parse addr = Inr au" and
    b: "defaultScheme Parse au = Inr au'" and
    c: "fromURL au' = Inr ds"
    by (auto simp: parseDNSSvr_def split: sum.splits)
  obtain a1 u1 where au: "au = (a1, u1)" by (cases au)
  obtain a2 u2 where au': "au' = (a2, u2)" by (cases au')
  from a au have p1: "Parse (ToLower a1) = Inr u1"
    by (auto simp: parseAddr_def Let_def split: sum.splits)
  from b au au' p1 have p2: "Parse (ToLower a2) = Inr u2"
    by (auto simp: defaultScheme_def Let_def split: if_splits sum.splits)
  from c au' fromURL_Inr[of a2 u2 ds]
  have "URL ds = a2" "U ds = u2" "Host u2 \<noteq> []" "Scheme u2 \<noteq> []"
    by auto
  with p2 c au' show ?thesis by simp
qed

lemma parseDNSSvr_fixpoint:
  assumes "Parse (ToLower addr) = Inr u" "Host u \<noteq> []"
  shows "parseDNSSvr Parse addr = fromURL (addr, u)"
  using assms by (simp add: parseDNSSvr_def parseAddr_def defaultScheme_def)

lemma parseDNSSvr_prefixed:
  assumes ok: "parseDNSSvr Parse addr = Inr ds" and ne: "URL ds \<noteq> addr"
  shows "parseDNSSvr Parse (''udp://'' @ addr) = Inr ds"
proof -
  from ok obtain au au' where
    a: "parseAddr Parse addr = Inr au" and
    b: "defaultScheme Parse au = Inr au'" and
    c: "fromURL au' = Inr ds"
    by (auto simp: parseDNSSvr_def split: sum.splits)
  obtain a1 u1 where au: "au = (a1, u1)" by (cases au)
  obtain a2 u2 where au': "au' = (a2, u2)" by (cases au')
  from c au' fromURL_Inr[of a2 u2 ds] have d: "URL ds = a2" "U ds = u2" "Host u2 \<noteq> []"
    by auto
  show ?thesis
  proof (cases "Parse (ToLower addr)")
    case (Inl err)
    with a au have a1: "a1 = ''udp://'' @ addr" and p1: "Parse (ToLower a1) = Inr u1"
      by (auto simp: parseAddr_def Let_def split: sum.splits)
    have "parseAddr Parse (''udp://'' @ addr) = Inr (a1, u1)"
      using a1 p1 by (simp add: parseAddr_def)
    with b c au show ?thesis by (simp add: parseDNSSvr_def)
  next
    case (Inr u)
    with a au have a1: "a1 = addr" "u1 = u"
      by (auto simp: parseAddr_def)
    from b au au' a1 d ne have h: "Host u = []" and a2: "a2 = ''udp://'' @ addr"
      and p2: "Parse (ToLower (''udp://'' @ addr)) = Inr u2"
      by (auto simp: defaultScheme_def Let_def split: if_splits sum.splits)
    from parseDNSSvr_fixpoint[of Parse "''udp://'' @ addr" u2] p2 d(3) c au' a2
    show ?thesis by simp
  qed
qed

lemma parseDNSSvr_lacksScheme:
  assumes ok: "parseDNSSvr Parse addr = Inr ds" and ls: "lacksScheme Parse addr"
  shows "URL ds \<noteq> addr"
proof
  assume eq: "URL ds = addr"
  from parseDNSSvr_Inr[OF ok] eq
  have "Parse (ToLower addr) = Inr (U ds)" "Scheme (U ds) \<noteq> []" by auto
  with ls show False by (simp add: lacksScheme_def)
qed

text \<open>
  C6. When \<open>parseDNSSvr\<close> succeeds on an address, parsing the URL string of the endpoint
  it returns gives the same endpoint again. In particular, when the address lacks a
  scheme, the parser has put \<open>udp://\<close> in front of it, and parsing the address with
  \<open>udp://\<close> in front gives the same endpoint as parsing the address itself. This holds
  for every behaviour of \<open>url.Parse\<close>.
\<close>

theorem parseDNSSvr_idempotent:
  assumes "parseDNSSvr Parse addr = Inr ds"
  shows "parseDNSSvr Parse (URL ds) = Inr ds
         \<and> (lacksScheme Parse addr \<longrightarrow>
              URL ds \<noteq> addr \<and> parseDNSSvr Parse (''udp://'' @ addr) = Inr ds)"
proof -
  from parseDNSSvr_Inr[OF assms] have
    "Parse (ToLower (URL ds)) = Inr (U ds)" "Host (U ds) \<noteq> []"
    "fromURL (URL ds, U ds) = Inr ds" by auto
  then have "parseDNSSvr Parse (URL ds) = Inr ds"
    using parseDNSSvr_fixpoint[of Parse "URL ds" "U ds"] by simp
  with parseDNSSvr_prefixed[OF assms] parseDNSSvr_lacksScheme[OF assms]
  show ?thesis by blast
qed

text \<open>
  The address \<open>8.8.8.8:53\<close>, which \<open>url.Parse\<close> refuses as it stands (a colon in the
  first path segment): the endpoint is that of \<open>udp://8.8.8.8:53\<close>, and parsing that
  string gives it again.
\<close>

theorem parseDNSSvr_idempotent_witness:
  "parseDNSSvr url_Parse ''8.8.8.8:53'' =
     Inr \<lparr>U = \<lparr>Scheme = ''udp'', Opaque = [], User = None, Host = ''8.8.8.8:53'',
                Path = [], OmitHost = False, ForceQuery = False, RawQuery = [],
                Fragment = []\<rparr>,
           URL = ''udp://8.8.8.8:53'', Protocol = ''udp'', Address = ''8.8.8.8'', Port = 53\<rparr>
   \<and> lacksScheme url_Parse ''8.8.8.8:53''
   \<and> parseDNSSvr url_Parse ''udp://8.8.8.8:53'' = parseDNSSvr url_Parse ''8.8.8.8:53''"
proof -
  let ?ds = "\<lparr>U = \<lparr>Scheme = ''udp'', Opaque = [], User = None, Host = ''8.8.8.8:53'',
                Path = [], OmitHost = False, ForceQuery = False, RawQuery = [],
                Fragment = []\<rparr>,
           URL = ''udp://8.8.8.8:53'', Protocol = ''udp'', Address = ''8.8.8.8'', Port = 53\<rparr>"
  have h: "parseDNSSvr url_Parse ''8.8.8.8:53'' = Inr ?ds" by code_simp
  have l: "lacksScheme url_Parse ''8.8.8.8:53''" by code_simp
  from parseDNSSvr_idempotent[OF h] h l show ?thesis by simp
qed

section \<open>Properties of the probe\<close>

text \<open>
  C7, as the code has it. The client uses the encrypted connection-oriented transport
  \<open>tcp-tls\<close> exactly when TLS settings are present in the transport configuration and the
  scheme of the endpoint is \<open>tcp\<close>; in every other case it uses \<open>udp\<close>, whatever the
  scheme of the endpoint.
\<close>

theorem pingClient_transport:
  "Net (pingClient config dnssvr tlscfg) =
     (if Transport_TLS (Transport config) \<noteq> None \<and> Scheme (U dnssvr) = ''tcp''
      then ''tcp-tls'' else ''udp'')"
  by (simp add: pingClient_def Let_def)

theorem pingClient_transport_witness:
  "Net (pingClient (defaultConfig\<lparr>Transport := \<lparr>Transport_TLS = Some (TLSSettings 0),
                                                  Transport_Timeout = 16 * 1000000000\<rparr>\<rparr>)
         \<lparr>U = \<lparr>Scheme = ''tcp'', Opaque = [], User = None, Host = ''8.8.8.8:853'',
                Path = [], OmitHost = False, ForceQuery = False, RawQuery = [],
                Fragment = []\<rparr>,
           URL = ''tcp://8.8.8.8:853'', Protocol = ''tcp'', Address = ''8.8.8.8'', Port = 853\<rparr>
         (Some (LoadedTLS 0)))
   = ''tcp-tls''"
  using pingClient_transport[of
     "defaultConfig\<lparr>Transport := \<lparr>Transport_TLS = Some (TLSSettings 0),
                                    Transport_Timeout = 16 * 1000000000\<rparr>\<rparr>"
     "\<lparr>U = \<lparr>Scheme = ''tcp'', Opaque = [], User = None, Host = ''8.8.8.8:853'',
                Path = [], OmitHost = False, ForceQuery = False, RawQuery = [],
                Fragment = []\<rparr>,
           URL = ''tcp://8.8.8.8:853'', Protocol = ''tcp'', Address = ''8.8.8.8'', Port = 853\<rparr>"
     "Some (LoadedTLS 0)"]
  by simp

text \<open>
  C7 as stated fails. The endpoint \<open>tcp://8.8.8.8\<close> parses with the protocol and scheme
  \<open>tcp\<close>; under the default configuration, which has no TLS settings, the client for it
  is on \<open>udp\<close>, not on the plain \<open>tcp\<close> transport.
\<close>

theorem pingClient_tcp_counterexample:
  "\<exists>ds. parseDNSSvr url_Parse ''tcp://8.8.8.8'' = Inr ds \<and> Protocol ds = ''tcp''
        \<and> Scheme (U ds) = ''tcp''
        \<and> Net (pingClient defaultConfig ds None) = ''udp''
        \<and> Net (pingClient defaultConfig ds None) \<noteq> ''tcp''"
proof -
  let ?ds = "\<lparr>U = \<lparr>Scheme = ''tcp'', Opaque = [], User = None, Host = ''8.8.8.8'',
                Path = [], OmitHost = False, ForceQuery = False, RawQuery = [],
                Fragment = []\<rparr>,
           URL = ''tcp://8.8.8.8'', Protocol = ''tcp'', Address = ''8.8.8.8'', Port = 53\<rparr>"
  have "parseDNSSvr url_Parse ''tcp://8.8.8.8'' = Inr ?ds" by code_simp
  moreover have "Net (pingClient defaultConfig ?ds None) = ''udp''" by code_simp
  ultimately show ?thesis by simp
qed

text \<open>
  C8, as the code has it. The published record has one answer entry for each decoded
  answer, in the same order, and every entry carries exactly three fields of the decoded
  record: its record type, its value and its name. The time-to-live of the decoded
  record is not among them.
\<close>

theorem publishedAnswers_fields:
  "length (publishedAnswers resp) = length (Answer resp)
   \<and> (\<forall>i < length (Answer resp).
         mkeys (publishedAnswers resp ! i) = [''record_type'', ''value'', ''name'']
       \<and> mget (publishedAnswers resp ! i) ''record_type''
           = Some (MStr (Ans_RRType (Answer resp ! i)))
       \<and> mget (publishedAnswers resp ! i) ''value''
           = Some (MStr (Ans_Value (Answer resp ! i)))
       \<and> mget (publishedAnswers resp ! i) ''name''
           = Some (MStr (Ans_Name (Answer resp ! i))))"
  by (simp add: publishedAnswers_def dnsFields_def responseFields_def ansFields_def)

theorem publishedAnswers_fields_witness:
  "mkeys (publishedAnswers
            \<lparr>Answer = [\<lparr>Ans_Name = ''example.com.'', Ans_RRType = ''a'',
                         Ans_Value = ''8.8.8.8'', Ans_TTL = 300\<rparr>],
             DNSServer = ''udp://8.8.8.8'', TLS_ServerName = []\<rparr> ! 0)
     = [''record_type'', ''value'', ''name'']
   \<and> mget (publishedAnswers
            \<lparr>Answer = [\<lparr>Ans_Name = ''example.com.'', Ans_RRType = ''a'',
                         Ans_Value = ''8.8.8.8'', Ans_TTL = 300\<rparr>],
             DNSServer = ''udp://8.8.8.8'', TLS_ServerName = []\<rparr> ! 0) ''value''
     = Some (MStr ''8.8.8.8'')"
  using publishedAnswers_fields[of
     "\<lparr>Answer = [\<lparr>Ans_Name = ''example.com.'', Ans_RRType = ''a'',
                   Ans_Value = ''8.8.8.8'', Ans_TTL = 300\<rparr>],
       DNSServer = ''udp://8.8.8.8'', TLS_ServerName = []\<rparr>"]
  by simp

text \<open>
  C8 as stated fails. The entry published for an answer with a time-to-live of 300 has
  no field beyond the three, none under the key \<open>ttl\<close> in particular, and is the very
  entry published for the same answer with a time-to-live of 60.
\<close>

theorem publishedAnswers_no_ttl_counterexample:
  "publishedAnswers
     \<lparr>Answer = [\<lparr>Ans_Name = ''example.com.'', Ans_RRType = ''a'',
                  Ans_Value = ''8.8.8.8'', Ans_TTL = 300\<rparr>],
      DNSServer = ''udp://8.8.8.8'', TLS_ServerName = []\<rparr>
     = [MMap [(''record_type'', MStr ''a''), (''value'', MStr ''8.8.8.8''),
              (''name'', MStr ''example.com.'')]]
   \<and> mget (MMap [(''record_type'', MStr ''a''), (''value'', MStr ''8.8.8.8''),
                  (''name'', MStr ''example.com.'')]) ''ttl'' = None
   \<and> publishedAnswers
       \<lparr>Answer = [\<lparr>Ans_Name = ''example.com.'', Ans_RRType = ''a'',
                    Ans_Value = ''8.8.8.8'', Ans_TTL = 60\<rparr>],
        DNSServer = ''udp://8.8.8.8'', TLS_ServerName = []\<rparr>
     = [MMap [(''record_type'', MStr ''a''), (''value'', MStr ''8.8.8.8''),
              (''name'', MStr ''example.com.'')]]"
  by code_simp

end
